theory Spec2Isabelle
  imports Complex_Main "HOL-Library.Sublist"
begin

text \<open>
  The backend of the food-logging application: the authorization guard
  (\<^verbatim>\<open>middleware/authMiddleware.js\<close>) and the seven route handlers of
  \<^verbatim>\<open>routes/auth.js\<close>, as functions of the request, the response under
  construction and the state of the database. What lies outside the repository is
  explicit: the libraries are parameters of the handlers, the database is three
  tables with a script of the faults to come, the clock is a field of the state. An
  exception is a value: a handler ends with a response sent or with an error that no
  \<^verbatim>\<open>catch\<close> of it saw.
\<close>

section \<open>JavaScript values\<close>

text \<open>
  A request body is what \<^verbatim>\<open>express.json()\<close> parsed: JSON values. A field that is
  absent reads as \<^verbatim>\<open>undefined\<close>, which is \<open>None\<close> of \<open>json option\<close>. Numbers are
  reals: the only thing the handlers ask of a number is whether it is zero. A string
  is the list of the bytes of its UTF-8 form, so that a character outside ASCII is
  several bytes, none of which is an ASCII character.
\<close>

datatype json =
    JNull
  | JBool bool
  | JNum real
  | JStr string
  | JArr "json list"
  | JObj "(string \<times> json) list"

text \<open>JavaScript truthiness, as \<^verbatim>\<open>!x\<close> and \<^verbatim>\<open>x || y\<close> test it.\<close>

fun truthy :: "json option \<Rightarrow> bool" where
  "truthy None = False"
| "truthy (Some JNull) = False"
| "truthy (Some (JBool b)) = b"
| "truthy (Some (JNum r)) = (r \<noteq> 0)"
| "truthy (Some (JStr s)) = (s \<noteq> [])"
| "truthy (Some (JArr xs)) = True"
| "truthy (Some (JObj kvs)) = True"

text \<open>
  \<^verbatim>\<open>s.split(sep)\<close> for a separator of one character: the pieces between the
  separators, empty pieces kept; the empty string splits into one empty piece.
\<close>

fun split :: "string \<Rightarrow> char \<Rightarrow> string list" where
  "split [] sep = [[]]"
| "split (c # cs) sep =
     (if c = sep then [] # split cs sep
      else (case split cs sep of [] \<Rightarrow> [[c]] | p # ps \<Rightarrow> (c # p) # ps))"

text \<open>\<^verbatim>\<open>xs[i]\<close>: \<^verbatim>\<open>undefined\<close> out of range.\<close>

definition elem_at :: "'a list \<Rightarrow> nat \<Rightarrow> 'a option" where
  "elem_at xs i = (if i < length xs then Some (xs ! i) else None)"

text \<open>A string of decimal digits as the number it writes.\<close>

definition digit :: "char \<Rightarrow> nat option" where
  "digit c = (let n = (of_char c :: nat) in if 48 \<le> n \<and> n \<le> 57 then Some (n - 48) else None)"

fun decimal :: "nat \<Rightarrow> string \<Rightarrow> nat option" where
  "decimal acc [] = Some acc"
| "decimal acc (c # cs) =
     (case digit c of None \<Rightarrow> None | Some d \<Rightarrow> decimal (10 * acc + d) cs)"

text \<open>Exceptions, with the message \<^verbatim>\<open>error.message\<close> reads.\<close>

datatype js_error = Error string | TypeError string

fun message :: "js_error \<Rightarrow> string" where
  "message (Error m) = m"
| "message (TypeError m) = m"

section \<open>Requests and responses\<close>

text \<open>
  Of a request the code reads the authorization header, the body's fields, the query
  string's fields and \<^verbatim>\<open>req.user\<close>, which the guard sets. Of a response it sets
  the status code (200 until set) and sends one JSON body.
\<close>

record 'c request =
  authorization :: "string option"
  body :: "string \<Rightarrow> json option"
  query :: "string \<Rightarrow> json option"
  user :: "'c option"

record response =
  statusCode :: nat
  sent :: "json option"

definition fresh_response :: response where
  "fresh_response = \<lparr>statusCode = 200, sent = None\<rparr>"

text \<open>
  \<^verbatim>\<open>res.status(code)\<close> and \<^verbatim>\<open>res.json(value)\<close>; the value is \<open>None\<close> when the code
  passes \<^verbatim>\<open>undefined\<close> (a row that is not there).
\<close>

definition status :: "nat \<Rightarrow> response \<Rightarrow> response" where
  "status code res = res\<lparr>statusCode := code\<rparr>"

definition send_json :: "json option \<Rightarrow> response \<Rightarrow> response" where
  "send_json v res = res\<lparr>sent := v\<rparr>"

definition error_body :: "string \<Rightarrow> json" where
  "error_body m = JObj [(''error'', JStr m)]"

section \<open>The authorization guard (middleware/authMiddleware.js)\<close>

text \<open>
  The guard ends in one of three ways: it has sent a response, it has called
  \<^verbatim>\<open>next()\<close> on the request with \<^verbatim>\<open>req.user\<close> set, or an exception has left it
  (with the response as it stood, nothing sent).
\<close>

datatype 'c guard_result =
    Responded response
  | Next "'c request"
  | Threw js_error response

text \<open>
  \<^verbatim>\<open>authHeader && authHeader.split(' ')[1]\<close>: \<^verbatim>\<open>undefined\<close> for no header, the
  empty string for an empty header, else the second piece of the header split at
  spaces (\<^verbatim>\<open>undefined\<close> when there is none).
\<close>

definition token_of :: "string option \<Rightarrow> string option" where
  "token_of authHeader =
     (case authHeader of
        None \<Rightarrow> None
      | Some h \<Rightarrow> if h = [] then Some [] else elem_at (split h CHR '' '') 1)"

text \<open>
  \<open>verify\<close> is \<^verbatim>\<open>jwt.verify(token, JWT_SECRET)\<close> at the instant of the request:
  \<open>Inr\<close> the decoded claims, \<open>Inl\<close> what it throws. The first branch calls
  \<^verbatim>\<open>res.status(401).jso(...)\<close>: the response has no method \<^verbatim>\<open>jso\<close>, so after the
  status is set the call throws a TypeError, outside the \<^verbatim>\<open>try\<close>.
\<close>

definition authenticateToken ::
  "(string \<Rightarrow> 'e + 'c) \<Rightarrow> 'c request \<Rightarrow> response \<Rightarrow> 'c guard_result" where
  "authenticateToken verify req res =
     (case token_of (authorization req) of
        None \<Rightarrow> Threw (TypeError ''res.status(...).jso is not a function'') (status 401 res)
      | Some token \<Rightarrow>
          if token = [] then
            Threw (TypeError ''res.status(...).jso is not a function'') (status 401 res)
          else
            (case verify token of
               Inr decoded \<Rightarrow> Next (req\<lparr>user := Some decoded\<rparr>)
             | Inl error \<Rightarrow> Responded (send_json (Some (error_body ''Invalid token'')) (status 400 res))))"

text \<open>
  A guarded route: the guard first, the handler only when the guard called
  \<^verbatim>\<open>next()\<close>. An exception that leaves the guard is not caught by the route.
\<close>

datatype handler_result = Sent response | Uncaught js_error

definition guarded ::
  "(string \<Rightarrow> 'e + 'c) \<Rightarrow> ('c request \<Rightarrow> response \<Rightarrow> 'w \<Rightarrow> handler_result \<times> 'w)
     \<Rightarrow> 'c request \<Rightarrow> response \<Rightarrow> 'w \<Rightarrow> handler_result \<times> 'w" where
  "guarded verify handler req res w =
     (case authenticateToken verify req res of
        Next req' \<Rightarrow> handler req' res w
      | Responded res' \<Rightarrow> (Sent res', w)
      | Threw error res' \<Rightarrow> (Uncaught error, w))"

section \<open>The database, as the queries of routes/auth.js use it\<close>

text \<open>
  The three tables the SQL of the handlers names. The schema is not part of the
  repository: a column holds the parameter value the handler passed
  (\<^verbatim>\<open>undefined\<close> is sent as NULL), ids come from one sequence and timestamps from
  the clock, in seconds. Whatever else the database may do to a query (a lost
  connection, a constraint, a type the column refuses) is a fault of that query, and
  the faults are scripted: \<open>faults\<close> lists, for the queries to come, \<open>Some m\<close> when
  the query rejects with message \<open>m\<close> and \<open>None\<close> when it runs.
\<close>

record user_row =
  u_id :: nat
  u_name :: json
  u_email :: json
  u_password :: string
  u_created_at :: nat

record food_row =
  f_id :: nat
  f_food_name :: json
  f_serving_size :: json
  f_calories :: json
  f_protein :: json
  f_carbs :: json
  f_fat :: json
  f_is_custom :: bool

record log_row =
  l_id :: nat
  l_user_id :: nat
  l_food_id :: json
  l_food_name :: json
  l_meal_type :: string
  l_quantity :: json
  l_logged_at :: nat

record world =
  users :: "user_row list"
  foods :: "food_row list"
  daily_food_logs :: "log_row list"
  serial :: nat
  clock :: nat
  faults :: "string option list"

definition sql_param :: "json option \<Rightarrow> json" where
  "sql_param v = (case v of None \<Rightarrow> JNull | Some x \<Rightarrow> x)"

text \<open>SQL \<^verbatim>\<open>=\<close>: never true of NULL.\<close>

definition sql_eq :: "json \<Rightarrow> json \<Rightarrow> bool" where
  "sql_eq a b = (a \<noteq> JNull \<and> a = b)"

text \<open>
  The number a numeric column takes from a parameter (the driver sends every parameter
  as text): a number as it is, and a string by its text, here for a text of decimal
  digits. Any other value reads as NULL. The ids are numeric, and so are
  \<^verbatim>\<open>calories\<close>, \<^verbatim>\<open>protein\<close>, \<^verbatim>\<open>carbs\<close>, \<^verbatim>\<open>fat\<close> and \<^verbatim>\<open>quantity\<close>, which
  the aggregates of the daily summary multiply.
\<close>

fun numeric_of :: "json \<Rightarrow> real option" where
  "numeric_of (JNum r) = Some r"
| "numeric_of (JStr s) = (if s = [] then None else map_option real (decimal 0 s))"
| "numeric_of v = None"

text \<open>\<^verbatim>\<open>id = $1\<close>\<close>

definition id_eq :: "nat \<Rightarrow> json \<Rightarrow> bool" where
  "id_eq n v = (numeric_of v = Some (real n))"

text \<open>
  \<^verbatim>\<open>await pool.query(sql, params)\<close>: the next entry of the script decides whether the
  statement runs or the promise rejects. A rejected query changes no table.
\<close>

definition pool_query :: "(world \<Rightarrow> 'r \<times> world) \<Rightarrow> world \<Rightarrow> (js_error + 'r) \<times> world" where
  "pool_query statement w =
     (case faults w of
        [] \<Rightarrow> (case statement w of (rows, w') \<Rightarrow> (Inr rows, w'))
      | None # rest \<Rightarrow> (case statement (w\<lparr>faults := rest\<rparr>) of (rows, w') \<Rightarrow> (Inr rows, w'))
      | Some m # rest \<Rightarrow> (Inl (Error m), w\<lparr>faults := rest\<rparr>))"

text \<open>\<^verbatim>\<open>SELECT * FROM users WHERE email = $1\<close>\<close>

definition select_users_by_email :: "json option \<Rightarrow> world \<Rightarrow> user_row list \<times> world" where
  "select_users_by_email email w =
     (filter (\<lambda>u. sql_eq (u_email u) (sql_param email)) (users w), w)"

text \<open>\<^verbatim>\<open>INSERT INTO users (name, email, password) VALUES ($1, $2, $3) RETURNING *\<close>\<close>

definition insert_user ::
  "json option \<Rightarrow> json option \<Rightarrow> string \<Rightarrow> world \<Rightarrow> user_row list \<times> world" where
  "insert_user name email password w =
     (let row = \<lparr>u_id = serial w, u_name = sql_param name, u_email = sql_param email,
                 u_password = password, u_created_at = clock w\<rparr>
      in ([row], w\<lparr>users := users w @ [row], serial := serial w + 1\<rparr>))"

text \<open>\<^verbatim>\<open>SELECT id, name, email FROM users WHERE id = $1\<close>\<close>

definition select_user_by_id :: "nat \<Rightarrow> world \<Rightarrow> user_row list \<times> world" where
  "select_user_by_id uid w = (filter (\<lambda>u. u_id u = uid) (users w), w)"

text \<open>
  \<^verbatim>\<open>INSERT INTO foods (food_name, serving_size, calories, protein, carbs, fat, is_custom)
  VALUES ($1, $2, $3, $4, $5, $6, $7) RETURNING *\<close>
\<close>

definition insert_food ::
  "json option \<Rightarrow> json option \<Rightarrow> json option \<Rightarrow> json option \<Rightarrow> json option \<Rightarrow> json option
     \<Rightarrow> bool \<Rightarrow> world \<Rightarrow> food_row list \<times> world" where
  "insert_food food_name serving_size calories protein carbs fat is_custom w =
     (let row = \<lparr>f_id = serial w, f_food_name = sql_param food_name,
                 f_serving_size = sql_param serving_size, f_calories = sql_param calories,
                 f_protein = sql_param protein, f_carbs = sql_param carbs,
                 f_fat = sql_param fat, f_is_custom = is_custom\<rparr>
      in ([row], w\<lparr>foods := foods w @ [row], serial := serial w + 1\<rparr>))"

text \<open>\<^verbatim>\<open>SELECT food_name FROM foods WHERE id = $1\<close>\<close>

definition select_food_name :: "json option \<Rightarrow> world \<Rightarrow> json list \<times> world" where
  "select_food_name food_id w =
     (map f_food_name (filter (\<lambda>f. id_eq (f_id f) (sql_param food_id)) (foods w)), w)"

text \<open>
  \<^verbatim>\<open>INSERT INTO daily_food_logs (user_id, food_id, food_name, meal_type, quantity)
  VALUES ($1, $2, $3, $4, $5) RETURNING *\<close>
\<close>

definition insert_log ::
  "nat \<Rightarrow> json option \<Rightarrow> json \<Rightarrow> string \<Rightarrow> json option \<Rightarrow> world \<Rightarrow> log_row list \<times> world" where
  "insert_log user_id food_id food_name meal_type quantity w =
     (let row = \<lparr>l_id = serial w, l_user_id = user_id, l_food_id = sql_param food_id,
                 l_food_name = food_name, l_meal_type = meal_type,
                 l_quantity = sql_param quantity, l_logged_at = clock w\<rparr>
      in ([row], w\<lparr>daily_food_logs := daily_food_logs w @ [row], serial := serial w + 1\<rparr>))"

definition sql_product :: "json \<Rightarrow> json \<Rightarrow> real" where
  "sql_product a b =
     (case (numeric_of a, numeric_of b) of (Some x, Some y) \<Rightarrow> x * y | _ \<Rightarrow> 0)"

text \<open>
  The two aggregates, over the join of today's logs of the user with their foods. A
  product with a NULL is NULL and is left out of the SUM; \<^verbatim>\<open>COALESCE(..., 0)\<close> is
  the sum of none.
\<close>

definition todays_logs :: "nat \<Rightarrow> world \<Rightarrow> (log_row \<times> food_row) list" where
  "todays_logs uid w =
     concat (map (\<lambda>l. map (\<lambda>f. (l, f)) (filter (\<lambda>f. id_eq (f_id f) (l_food_id l)) (foods w)))
       (filter (\<lambda>l. l_user_id l = uid \<and> l_logged_at l div 86400 = clock w div 86400)
          (daily_food_logs w)))"

definition summary_columns :: "(log_row \<times> food_row) list \<Rightarrow> (string \<times> json) list" where
  "summary_columns joined =
     [(''total_calories'', JNum (sum_list (map (\<lambda>(l, f). sql_product (f_calories f) (l_quantity l)) joined))),
      (''total_protein'', JNum (sum_list (map (\<lambda>(l, f). sql_product (f_protein f) (l_quantity l)) joined))),
      (''total_carbs'', JNum (sum_list (map (\<lambda>(l, f). sql_product (f_carbs f) (l_quantity l)) joined))),
      (''total_fat'', JNum (sum_list (map (\<lambda>(l, f). sql_product (f_fat f) (l_quantity l)) joined)))]"

definition select_total_summary :: "nat \<Rightarrow> world \<Rightarrow> json list \<times> world" where
  "select_total_summary uid w = ([JObj (summary_columns (todays_logs uid w))], w)"

definition select_meal_summary :: "nat \<Rightarrow> world \<Rightarrow> json list \<times> world" where
  "select_meal_summary uid w =
     (map (\<lambda>m. JObj ((''meal_type'', JStr m) #
                summary_columns (filter (\<lambda>(l, f). l_meal_type l = m) (todays_logs uid w))))
        (remdups (map (\<lambda>(l, f). l_meal_type l) (todays_logs uid w))), w)"

section \<open>Libraries and platform\<close>

text \<open>
  What the handlers call outside the repository, taken as it comes: the two
  environment variables (unset reads as \<^verbatim>\<open>undefined\<close>), bcryptjs, jsonwebtoken's
  \<^verbatim>\<open>sign\<close>, axios, the rendering of an instant by \<^verbatim>\<open>toISOString\<close> and
  \<^verbatim>\<open>String.prototype.toLowerCase\<close>, which is the platform's case mapping over all
  of Unicode (it maps the letters A to Z to a to z, and also, for one, the Kelvin sign
  U+212A to k). A call that throws or rejects returns \<open>Inl\<close> the error. The arguments
  are those of the call sites, with the instant of the call where the library reads
  the clock.
\<close>

record claims =
  userId :: nat
  iat :: nat
  exp :: nat

record env =
  JWT_SECRET :: "string option"
  SPOONACULAR_API_KEY :: "string option"
  bcrypt_hash :: "json option \<Rightarrow> nat \<Rightarrow> js_error + string"
  bcrypt_compare :: "json option \<Rightarrow> string \<Rightarrow> js_error + bool"
  jwt_sign :: "nat \<Rightarrow> string option \<Rightarrow> string \<Rightarrow> nat \<Rightarrow> js_error + string"
  axios_get :: "string \<Rightarrow> (string \<times> json option) list \<Rightarrow> js_error + json"
  toISOString :: "nat \<Rightarrow> string"
  toLowerCase :: "string \<Rightarrow> string"

section \<open>The route handlers (routes/auth.js)\<close>

text \<open>The \<^verbatim>\<open>catch\<close> of every handler: \<^verbatim>\<open>res.status(500).json({ error: error.message })\<close>.\<close>

definition caught :: "js_error \<Rightarrow> response \<Rightarrow> response" where
  "caught error res = send_json (Some (error_body (message error))) (status 500 res)"

text \<open>
  An object literal as JSON: a property whose value is \<^verbatim>\<open>undefined\<close> is not
  written.
\<close>

fun object :: "(string \<times> json option) list \<Rightarrow> (string \<times> json) list" where
  "object [] = []"
| "object ((k, None) # kvs) = object kvs"
| "object ((k, Some v) # kvs) = (k, v) # object kvs"

definition quoted :: "string \<Rightarrow> string" where
  "quoted s = CHR 0x27 # s @ [CHR 0x27]"

text \<open>The TypeError of reading a property of \<^verbatim>\<open>undefined\<close> or \<^verbatim>\<open>null\<close>.\<close>

definition cannot_read :: "string \<Rightarrow> string \<Rightarrow> js_error" where
  "cannot_read what property =
     TypeError (''Cannot read properties of '' @ what @ '' (reading '' @ quoted property @ '')'')"

subsection \<open>POST /register\<close>

definition register :: "env \<Rightarrow> 'c request \<Rightarrow> response \<Rightarrow> world \<Rightarrow> handler_result \<times> world" where
  "register e req res w =
     (let name = body req ''name''; email = body req ''email''; password = body req ''password''
      in case pool_query (select_users_by_email email) w of
           (Inl error, w1) \<Rightarrow> (Sent (caught error res), w1)
         | (Inr userExists, w1) \<Rightarrow>
             if length userExists > 0 then
               (Sent (send_json (Some (error_body ''User already exists'')) (status 400 res)), w1)
             else
               (case bcrypt_hash e password 10 of
                  Inl error \<Rightarrow> (Sent (caught error res), w1)
                | Inr hashedPassword \<Rightarrow>
                    (case pool_query (insert_user name email hashedPassword) w1 of
                       (Inl error, w2) \<Rightarrow> (Sent (caught error res), w2)
                     | (Inr newUser, w2) \<Rightarrow>
                         (case newUser of
                            [] \<Rightarrow> (Sent (caught (cannot_read ''undefined'' ''id'') res), w2)
                          | row # _ \<Rightarrow>
                              (Sent (send_json
                                 (Some (JObj [(''id'', JNum (real (u_id row))),
                                              (''name'', u_name row),
                                              (''email'', u_email row),
                                              (''created_at'', JStr (toISOString e (u_created_at row)))]))
                                 (status 201 res)), w2)))))"

subsection \<open>POST /login\<close>

text \<open>\<^verbatim>\<open>jwt.sign({ userId: id }, JWT_SECRET, { expiresIn: '1h' })\<close> at the instant \<open>now\<close>.\<close>

definition login_token :: "env \<Rightarrow> nat \<Rightarrow> nat \<Rightarrow> js_error + string" where
  "login_token e uid now = jwt_sign e uid (JWT_SECRET e) ''1h'' now"

definition login :: "env \<Rightarrow> 'c request \<Rightarrow> response \<Rightarrow> world \<Rightarrow> handler_result \<times> world" where
  "login e req res w =
     (let email = body req ''email''; password = body req ''password''
      in case pool_query (select_users_by_email email) w of
           (Inl error, w1) \<Rightarrow> (Sent (caught error res), w1)
         | (Inr [], w1) \<Rightarrow>
             (Sent (send_json (Some (error_body ''Invalid email or password'')) (status 400 res)), w1)
         | (Inr (row # _), w1) \<Rightarrow>
             (case bcrypt_compare e password (u_password row) of
                Inl error \<Rightarrow> (Sent (caught error res), w1)
              | Inr isMatch \<Rightarrow>
                  if \<not> isMatch then
                    (Sent (send_json (Some (error_body ''Invalid email or password'')) (status 400 res)), w1)
                  else
                    (case login_token e (u_id row) (clock w1) of
                       Inl error \<Rightarrow> (Sent (caught error res), w1)
                     | Inr token \<Rightarrow>
                         (Sent (send_json
                            (Some (JObj [(''token'', JStr token),
                                         (''user'', JObj [(''id'', JNum (real (u_id row))),
                                                          (''name'', u_name row),
                                                          (''email'', u_email row)])]))
                            res), w1))))"

subsection \<open>GET /profile\<close>

definition profile :: "env \<Rightarrow> claims request \<Rightarrow> response \<Rightarrow> world \<Rightarrow> handler_result \<times> world" where
  "profile e req res w =
     (case user req of
        None \<Rightarrow> (Sent (caught (cannot_read ''undefined'' ''userId'') res), w)
      | Some u \<Rightarrow>
          (case pool_query (select_user_by_id (userId u)) w of
             (Inl error, w1) \<Rightarrow> (Sent (caught error res), w1)
           | (Inr rows, w1) \<Rightarrow>
               (Sent (send_json
                  (case rows of
                     [] \<Rightarrow> None
                   | row # _ \<Rightarrow> Some (JObj [(''id'', JNum (real (u_id row))),
                                             (''name'', u_name row),
                                             (''email'', u_email row)]))
                  res), w1)))"

subsection \<open>GET /search\<close>

text \<open>
  \<^verbatim>\<open>response.data.products.map((item) => ({ id: item.id, title: item.title, image:
  item.image }))\<close> on the parsed body of the upstream response. Reading a property of
  \<^verbatim>\<open>null\<close> or \<^verbatim>\<open>undefined\<close> throws, and so does calling \<^verbatim>\<open>map\<close> on what is no
  array.
\<close>

fun pick_item :: "json \<Rightarrow> js_error + json" where
  "pick_item JNull = Inl (cannot_read ''null'' ''id'')"
| "pick_item (JObj kvs) =
     Inr (JObj (object [(''id'', map_of kvs ''id''), (''title'', map_of kvs ''title''),
                        (''image'', map_of kvs ''image'')]))"
| "pick_item v = Inr (JObj [])"

fun pick_items :: "json list \<Rightarrow> js_error + json list" where
  "pick_items [] = Inr []"
| "pick_items (item # items) =
     (case pick_item item of
        Inl error \<Rightarrow> Inl error
      | Inr r \<Rightarrow> (case pick_items items of Inl error \<Rightarrow> Inl error | Inr rs \<Rightarrow> Inr (r # rs)))"

fun products_of :: "json \<Rightarrow> js_error + json list" where
  "products_of JNull = Inl (cannot_read ''null'' ''products'')"
| "products_of (JObj kvs) =
     (case map_of kvs ''products'' of
        None \<Rightarrow> Inl (cannot_read ''undefined'' ''map'')
      | Some JNull \<Rightarrow> Inl (cannot_read ''null'' ''map'')
      | Some (JArr items) \<Rightarrow> pick_items items
      | Some v \<Rightarrow> Inl (TypeError ''response.data.products.map is not a function''))"
| "products_of v = Inl (cannot_read ''undefined'' ''map'')"

definition search :: "env \<Rightarrow> 'c request \<Rightarrow> response \<Rightarrow> world \<Rightarrow> handler_result \<times> world" where
  "search e req res w =
     (let q = query req ''query''
      in if \<not> truthy q then
           (Sent (send_json (Some (error_body ''Query must be provided'')) (status 400 res)), w)
         else
           (case axios_get e ''https://api.spoonacular.com/food/products/search''
                   [(''apiKey'', map_option JStr (SPOONACULAR_API_KEY e)), (''query'', q),
                    (''number'', Some (JNum 100))] of
              Inl error \<Rightarrow> (Sent (caught error res), w)
            | Inr data \<Rightarrow>
                (case products_of data of
                   Inl error \<Rightarrow> (Sent (caught error res), w)
                 | Inr results \<Rightarrow> (Sent (send_json (Some (JArr results)) res), w))))"

subsection \<open>POST /add-food\<close>

text \<open>\<^verbatim>\<open>x || 0\<close>\<close>

definition or_zero :: "json option \<Rightarrow> json option" where
  "or_zero x = (if truthy x then x else Some (JNum 0))"

definition food_json :: "food_row \<Rightarrow> json" where
  "food_json row =
     JObj [(''id'', JNum (real (f_id row))), (''food_name'', f_food_name row),
           (''serving_size'', f_serving_size row), (''calories'', f_calories row),
           (''protein'', f_protein row), (''carbs'', f_carbs row), (''fat'', f_fat row),
           (''is_custom'', JBool (f_is_custom row))]"

definition add_food :: "env \<Rightarrow> 'c request \<Rightarrow> response \<Rightarrow> world \<Rightarrow> handler_result \<times> world" where
  "add_food e req res w =
     (let food_name = body req ''food_name''; serving_size = body req ''serving_size'';
          calories = body req ''calories''; protein = body req ''protein'';
          carbs = body req ''carbs''; fat = body req ''fat''
      in if \<not> truthy food_name \<or> \<not> truthy serving_size \<or> \<not> truthy calories then
           (Sent (send_json (Some (error_body ''Food name, serving size, and calories are required''))
              (status 400 res)), w)
         else
           (case pool_query (insert_food food_name serving_size calories (or_zero protein)
                   (or_zero carbs) (or_zero fat) True) w of
              (Inl error, w1) \<Rightarrow> (Sent (caught error res), w1)
            | (Inr newFood, w1) \<Rightarrow>
                (Sent (send_json (map_option food_json (elem_at newFood 0)) (status 201 res)), w1)))"

subsection \<open>POST /log-food\<close>

text \<open>
  \<^verbatim>\<open>meal_type.toLowerCase()\<close> on a value that passed the truthiness test: only a
  string has the method; on a number, \<^verbatim>\<open>true\<close>, an array or an object the call
  throws a TypeError. The call stands before the \<^verbatim>\<open>try\<close> of the handler.
\<close>

fun call_toLowerCase :: "env \<Rightarrow> json option \<Rightarrow> js_error + string" where
  "call_toLowerCase e (Some (JStr s)) = Inr (toLowerCase e s)"
| "call_toLowerCase e None = Inl (cannot_read ''undefined'' ''toLowerCase'')"
| "call_toLowerCase e (Some JNull) = Inl (cannot_read ''null'' ''toLowerCase'')"
| "call_toLowerCase e (Some v) = Inl (TypeError ''meal_type.toLowerCase is not a function'')"

definition validMealTypes :: "string list" where
  "validMealTypes = [''breakfast'', ''lunch'', ''dinner'', ''snack'']"

definition log_json :: "env \<Rightarrow> log_row \<Rightarrow> json" where
  "log_json e row =
     JObj [(''id'', JNum (real (l_id row))), (''user_id'', JNum (real (l_user_id row))),
           (''food_id'', l_food_id row), (''food_name'', l_food_name row),
           (''meal_type'', JStr (l_meal_type row)), (''quantity'', l_quantity row),
           (''logged_at'', JStr (toISOString e (l_logged_at row)))]"

definition log_food :: "env \<Rightarrow> claims request \<Rightarrow> response \<Rightarrow> world \<Rightarrow> handler_result \<times> world" where
  "log_food e req res w =
     (let food_id = body req ''food_id''; meal_type = body req ''meal_type'';
          quantity = body req ''quantity''
      in if \<not> truthy food_id \<or> \<not> truthy meal_type \<or> \<not> truthy quantity then
           (Sent (send_json (Some (error_body ''Food ID, meal type, and quantity are required''))
              (status 400 res)), w)
         else
           (case call_toLowerCase e meal_type of
              Inl error \<Rightarrow> (Uncaught error, w)
            | Inr lowered \<Rightarrow>
                (let type = (if lowered \<in> set validMealTypes then lowered else ''snack'')
                 in case pool_query (select_food_name food_id) w of
                      (Inl error, w1) \<Rightarrow> (Sent (caught error res), w1)
                    | (Inr [], w1) \<Rightarrow>
                        (Sent (send_json (Some (error_body ''Food not found'')) (status 404 res)), w1)
                    | (Inr (foodName # _), w1) \<Rightarrow>
                        (case user req of
                           None \<Rightarrow> (Sent (caught (cannot_read ''undefined'' ''userId'') res), w1)
                         | Some u \<Rightarrow>
                             (case pool_query (insert_log (userId u) food_id foodName type quantity) w1 of
                                (Inl error, w2) \<Rightarrow> (Sent (caught error res), w2)
                              | (Inr newLog, w2) \<Rightarrow>
                                  (Sent (send_json (map_option (log_json e) (elem_at newLog 0))
                                     (status 201 res)), w2))))))"

subsection \<open>GET /daily-summary\<close>

definition daily_summary ::
  "env \<Rightarrow> claims request \<Rightarrow> response \<Rightarrow> world \<Rightarrow> handler_result \<times> world" where
  "daily_summary e req res w =
     (case user req of
        None \<Rightarrow> (Sent (caught (cannot_read ''undefined'' ''userId'') res), w)
      | Some u \<Rightarrow>
          (case pool_query (select_total_summary (userId u)) w of
             (Inl error, w1) \<Rightarrow> (Sent (caught error res), w1)
           | (Inr totalSummary, w1) \<Rightarrow>
               (case pool_query (select_meal_summary (userId u)) w1 of
                  (Inl error, w2) \<Rightarrow> (Sent (caught error res), w2)
                | (Inr mealSummary, w2) \<Rightarrow>
                    (Sent (send_json
                       (Some (JObj (object
                          [(''date'', map_option JStr (elem_at (split (toISOString e (clock w2)) CHR ''T'') 0)),
                           (''total'', elem_at totalSummary 0),
                           (''meals'', Some (JArr mealSummary))])))
                       res), w2))))"

subsection \<open>The router\<close>

text \<open>
  The seven routes as \<^verbatim>\<open>routes/auth.js\<close> registers them; four stand behind the
  guard, which verifies with \<^verbatim>\<open>JWT_SECRET\<close> at the instant of the request.
\<close>

datatype route =
    POST_register
  | POST_login
  | GET_profile
  | GET_search
  | POST_add_food
  | POST_log_food
  | GET_daily_summary

definition router ::
  "(string \<Rightarrow> string option \<Rightarrow> nat \<Rightarrow> 'e + claims) \<Rightarrow> env \<Rightarrow> route
     \<Rightarrow> claims request \<Rightarrow> response \<Rightarrow> world \<Rightarrow> handler_result \<times> world" where
  "router jwt_verify e r req res w =
     (case r of
        POST_register \<Rightarrow> register e req res w
      | POST_login \<Rightarrow> login e req res w
      | GET_profile \<Rightarrow>
          guarded (\<lambda>token. jwt_verify token (JWT_SECRET e) (clock w)) (profile e) req res w
      | GET_search \<Rightarrow> search e req res w
      | POST_add_food \<Rightarrow>
          guarded (\<lambda>token. jwt_verify token (JWT_SECRET e) (clock w)) (add_food e) req res w
      | POST_log_food \<Rightarrow>
          guarded (\<lambda>token. jwt_verify token (JWT_SECRET e) (clock w)) (log_food e) req res w
      | GET_daily_summary \<Rightarrow>
          guarded (\<lambda>token. jwt_verify token (JWT_SECRET e) (clock w)) (daily_summary e) req res w)"

section \<open>Token issuer and verifier\<close>

text \<open>
  \<^verbatim>\<open>jwt.sign\<close> and \<^verbatim>\<open>jwt.verify\<close> are the jsonwebtoken library's: their code is
  not in the repository, whose handlers and guard only call them. The definitions of
  this section follow the contract the spec gives for them (section 4.2).
\<close>

text \<open>
  Modelled from the spec: the errors \<^verbatim>\<open>verify\<close> reports (the library's code is
  missing).
\<close>

datatype verification_error = SignatureInvalid | Expired | Malformed

text \<open>
  Modelled from the spec: a token, "a signed, self-contained assertion of userId,
  issued_at, expires_at" (the library's code is missing). The signature is symbolic: a
  token records the secret that signed it. The wire format is left open: \<open>encode\<close>
  writes a token as a string and \<open>decode\<close> reads one, \<open>None\<close> for a string that is
  no token.
\<close>

record token =
  payload :: claims
  signed_with :: string

text \<open>
  Modelled from the spec: the span that \<^verbatim>\<open>expiresIn\<close> names, in seconds, a decimal
  number and a unit; \<^verbatim>\<open>'1h'\<close> is the spec's one hour (the library's code is missing).
\<close>

definition timespan :: "string \<Rightarrow> nat option" where
  "timespan s =
     (if length s < 2 then None
      else case decimal 0 (butlast s) of
             None \<Rightarrow> None
           | Some n \<Rightarrow>
               if last s = CHR ''s'' then Some n
               else if last s = CHR ''m'' then Some (60 * n)
               else if last s = CHR ''h'' then Some (3600 * n)
               else if last s = CHR ''d'' then Some (86400 * n)
               else None)"

text \<open>
  Modelled from the spec: \<^verbatim>\<open>issue\<close>, the library's \<^verbatim>\<open>jwt.sign\<close>, whose code is
  missing. It "produces a signed token embedding claims plus an expiry timestamp set
  to issuance-time" plus the span; it throws without a secret.
\<close>

definition issue ::
  "(token \<Rightarrow> string) \<Rightarrow> nat \<Rightarrow> string option \<Rightarrow> string \<Rightarrow> nat \<Rightarrow> js_error + string" where
  "issue encode uid secret expiresIn now =
     (case secret of
        None \<Rightarrow> Inl (Error ''secretOrPrivateKey must have a value'')
      | Some key \<Rightarrow>
          (case timespan expiresIn of
             None \<Rightarrow> Inl (Error ''invalid expiresIn'')
           | Some seconds \<Rightarrow>
               Inr (encode \<lparr>payload = \<lparr>userId = uid, iat = now, exp = now + seconds\<rparr>,
                            signed_with = key\<rparr>)))"

text \<open>
  Modelled from the spec: \<^verbatim>\<open>verify\<close>, the library's \<^verbatim>\<open>jwt.verify\<close>, whose code is
  missing. It "checks signature integrity and expiry; on success returns the embedded
  claims; on failure reports one of SignatureInvalid, Expired, Malformed".
\<close>

definition verify ::
  "(string \<Rightarrow> token option) \<Rightarrow> string \<Rightarrow> string option \<Rightarrow> nat \<Rightarrow> verification_error + claims" where
  "verify decode tok secret now =
     (case decode tok of
        None \<Rightarrow> Inl Malformed
      | Some t \<Rightarrow>
          if secret \<noteq> Some (signed_with t) then Inl SignatureInvalid
          else if exp (payload t) \<le> now then Inl Expired
          else Inr (payload t))"

section \<open>Sample inputs\<close>

text \<open>Concrete requests, libraries and database states at which the theorems are run.\<close>

definition no_fields :: "string \<Rightarrow> json option" where
  "no_fields k = None"

definition request_with_header :: "string \<Rightarrow> 'c request" where
  "request_with_header h =
     \<lparr>authorization = Some h, body = no_fields, query = no_fields, user = None\<rparr>"

definition request_with_body :: "(string \<times> json) list \<Rightarrow> claims request" where
  "request_with_body kvs =
     \<lparr>authorization = None, body = map_of kvs, query = no_fields,
      user = Some \<lparr>userId = 1, iat = 0, exp = 3600\<rparr>\<rparr>"

text \<open>
  The sample platform's \<^verbatim>\<open>toLowerCase\<close>: it lower-cases the letters A to Z and the
  Kelvin sign U+212A (the bytes E2 84 AA), which becomes k, and leaves every other
  byte as it is.
\<close>

definition ascii_lower_char :: "char \<Rightarrow> char" where
  "ascii_lower_char c =
     (case map_of (zip ''ABCDEFGHIJKLMNOPQRSTUVWXYZ'' ''abcdefghijklmnopqrstuvwxyz'') c of
        None \<Rightarrow> c
      | Some l \<Rightarrow> l)"

fun sample_lower :: "string \<Rightarrow> string" where
  "sample_lower (a # b # c # cs) =
     (if a = CHR 0xE2 \<and> b = CHR 0x84 \<and> c = CHR 0xAA then CHR ''k'' # sample_lower cs
      else ascii_lower_char a # sample_lower (b # c # cs))"
| "sample_lower (a # cs) = ascii_lower_char a # sample_lower cs"
| "sample_lower [] = []"

definition sample_env :: env where
  "sample_env =
     \<lparr>JWT_SECRET = Some ''secret'', SPOONACULAR_API_KEY = Some ''key'',
      bcrypt_hash = (\<lambda>password rounds. Inr ''hashed''),
      bcrypt_compare = (\<lambda>password hash. Inr True),
      jwt_sign = (\<lambda>uid secret expiresIn now. Inr ''token''),
      axios_get = (\<lambda>url params. Inl (Error ''Network Error'')),
      toISOString = (\<lambda>t. ''2024-01-01T00:00:00.000Z''),
      toLowerCase = sample_lower\<rparr>"

definition sample_world :: world where
  "sample_world =
     \<lparr>users = [\<lparr>u_id = 1, u_name = JStr ''Ann'', u_email = JStr ''a@b.com'',
                 u_password = ''hashed'', u_created_at = 0\<rparr>],
      foods = [\<lparr>f_id = 2, f_food_name = JStr ''apple'', f_serving_size = JNum 1,
                 f_calories = JNum 100, f_protein = JNum 0, f_carbs = JNum 25,
                 f_fat = JNum 0, f_is_custom = True\<rparr>],
      daily_food_logs = [], serial = 3, clock = 1000, faults = []\<rparr>"

definition request_with :: "string \<Rightarrow> (string \<times> json) list \<Rightarrow> claims request" where
  "request_with h kvs =
     \<lparr>authorization = Some h, body = map_of kvs, query = no_fields, user = None\<rparr>"

definition accept_all :: "string \<Rightarrow> string option \<Rightarrow> nat \<Rightarrow> unit + claims" where
  "accept_all tok secret now = Inr \<lparr>userId = 1, iat = 0, exp = 3600\<rparr>"

definition sample_token :: token where
  "sample_token = \<lparr>payload = \<lparr>userId = 1, iat = 1000, exp = 4600\<rparr>, signed_with = ''secret''\<rparr>"

definition sample_encode :: "token \<Rightarrow> string" where
  "sample_encode t = ''header.payload.signature''"

definition sample_decode :: "string \<Rightarrow> token option" where
  "sample_decode s = (if s = ''header.payload.signature'' then Some sample_token else None)"

section \<open>What it means that a handler caught a database fault\<close>

text \<open>
  For a script whose first fault is \<open>Some m\<close>, followed by \<open>rest\<close>: either the handler
  ended before the faulting query (more than \<open>rest\<close> is left of the script), or it
  sent status 500 with the message \<open>m\<close> as the body's \<^verbatim>\<open>error\<close> and issued no query
  after the faulting one (exactly \<open>rest\<close> is left).
\<close>

definition fault_caught ::
  "string \<Rightarrow> string option list \<Rightarrow> response \<Rightarrow> handler_result \<times> world \<Rightarrow> bool" where
  "fault_caught m rest res out =
     (length rest < length (faults (snd out))
      \<or> (fst out = Sent (res\<lparr>statusCode := 500, sent := Some (JObj [(''error'', JStr m)])\<rparr>)
          \<and> faults (snd out) = rest))"

section \<open>Properties of the guard\<close>

lemma split_not_Nil: "split s sep \<noteq> []"
  by (induction s) (auto split: list.splits)

lemma split_no_sep: "sep \<notin> set s \<Longrightarrow> split s sep = [s]"
  by (induction s) auto

lemma split_at_sep: "sep \<notin> set a \<Longrightarrow> split (a @ sep # rest) sep = a # split rest sep"
  by (induction a) auto

lemma hd_split: "hd (split s sep) = takeWhile (\<lambda>c. c \<noteq> sep) s"
  by (induction s) (auto simp: split_not_Nil split: list.splits)

lemma second_piece:
  assumes "CHR '' '' \<notin> set scheme"
  shows "token_of (Some (scheme @ CHR '' '' # rest)) = Some (takeWhile (\<lambda>c. c \<noteq> CHR '' '') rest)"
proof -
  obtain p ps where ps: "split rest CHR '' '' = p # ps"
    using split_not_Nil [of rest "CHR '' ''"] by (cases "split rest CHR '' ''") auto
  then have "p = takeWhile (\<lambda>c. c \<noteq> CHR '' '') rest"
    using hd_split [of rest "CHR '' ''"] by simp
  with ps assms show ?thesis
    by (simp add: token_of_def split_at_sep elem_at_def)
qed

lemma no_second_piece:
  assumes "CHR '' '' \<notin> set h"
  shows "token_of (Some h) = None \<or> token_of (Some h) = Some []"
  using assms by (simp add: token_of_def split_no_sep elem_at_def)

lemma guard_without_token:
  assumes "token_of (authorization req) = None \<or> token_of (authorization req) = Some []"
  shows "authenticateToken v req res =
           Threw (TypeError ''res.status(...).jso is not a function'') (status 401 res)"
  using assms by (auto simp: authenticateToken_def)

lemma no_header:
  "authenticateToken v (req\<lparr>authorization := None\<rparr>) res =
     Threw (TypeError ''res.status(...).jso is not a function'') (status 401 res)"
  by (simp add: authenticateToken_def token_of_def)

lemma guard_with_token:
  assumes "token_of (authorization req) = Some token" "token \<noteq> []"
  shows "authenticateToken v req res =
           (case v token of
              Inr decoded \<Rightarrow> Next (req\<lparr>user := Some decoded\<rparr>)
            | Inl error \<Rightarrow> Responded (send_json (Some (error_body ''Invalid token'')) (status 400 res)))"
  using assms by (simp add: authenticateToken_def)

text \<open>
  C1. A request with no authorization header yields no token. The guard sets the
  status to 401 and then calls \<^verbatim>\<open>jso\<close>, which the response does not have: a
  TypeError leaves the guard and no JSON body is sent.
\<close>

theorem guard_without_header_throws:
  "authenticateToken jwt_verify (req\<lparr>authorization := None\<rparr>) res =
     Threw (TypeError ''res.status(...).jso is not a function'') (res\<lparr>statusCode := 401\<rparr>)"
  by (simp add: authenticateToken_def token_of_def status_def)

text \<open>
  C2, as stated, fails: the header \<^verbatim>\<open>Basic abc\<close> does not start with \<^verbatim>\<open>Bearer \<close>,
  and the guard passes \<^verbatim>\<open>abc\<close> to verification. With a verifier that rejects every
  token the request takes the invalid-credential path (400, \<^verbatim>\<open>Invalid token\<close>), not
  the no-credential path; with a verifier that accepts every token and returns it as
  the claims, the request is authorized with the claims \<^verbatim>\<open>abc\<close>.
\<close>

theorem bearer_prefix_not_checked:
  "\<not> prefix ''Bearer '' ''Basic abc''
   \<and> authenticateToken (Inl :: string \<Rightarrow> string + string) (request_with_header ''Basic abc'')
       fresh_response
     = Responded \<lparr>statusCode = 400, sent = Some (JObj [(''error'', JStr ''Invalid token'')])\<rparr>
   \<and> authenticateToken (Inr :: string \<Rightarrow> unit + string) (request_with_header ''Basic abc'')
       fresh_response
     = Next ((request_with_header ''Basic abc'')\<lparr>user := Some ''abc''\<rparr>)"
  by (simp add: authenticateToken_def token_of_def elem_at_def request_with_header_def
      fresh_response_def send_json_def status_def error_body_def)

text \<open>
  C2, amended. The token is the second piece of the header split at spaces, whatever
  the first piece is. For a header \<open>scheme\<close>, space, \<open>rest\<close>: when the piece of
  \<open>rest\<close> up to its first space is not empty, the guard's outcome is the
  verification's of that piece. When it is empty, and when the header is absent or
  has no space, the request carries no token and the guard takes the no-credential
  branch, that of a request with no header: it sets the status to 401 and ends as that
  branch does, whatever the verifier, which is not consulted.
\<close>

theorem guard_takes_second_piece:
  "(authorization req = Some (scheme @ CHR '' '' # rest) \<and> CHR '' '' \<notin> set scheme \<and>
      takeWhile (\<lambda>c. c \<noteq> CHR '' '') rest \<noteq> []
    \<longrightarrow> authenticateToken v req res =
          (case v (takeWhile (\<lambda>c. c \<noteq> CHR '' '') rest) of
             Inr decoded \<Rightarrow> Next (req\<lparr>user := Some decoded\<rparr>)
           | Inl error \<Rightarrow>
               Responded (send_json (Some (error_body ''Invalid token'')) (status 400 res))))
   \<and> (authorization req = Some (scheme @ CHR '' '' # rest) \<and> CHR '' '' \<notin> set scheme \<and>
      takeWhile (\<lambda>c. c \<noteq> CHR '' '') rest = []
    \<longrightarrow> authenticateToken v req res =
          Threw (TypeError ''res.status(...).jso is not a function'') (res\<lparr>statusCode := 401\<rparr>)
        \<and> authenticateToken v req res = authenticateToken v' (req\<lparr>authorization := None\<rparr>) res)
   \<and> (authorization req = None \<or> (\<exists>h. authorization req = Some h \<and> CHR '' '' \<notin> set h)
    \<longrightarrow> authenticateToken v req res =
          Threw (TypeError ''res.status(...).jso is not a function'') (res\<lparr>statusCode := 401\<rparr>)
        \<and> authenticateToken v req res = authenticateToken v' (req\<lparr>authorization := None\<rparr>) res)"
proof (intro conjI impI)
  assume a: "authorization req = Some (scheme @ CHR '' '' # rest) \<and> CHR '' '' \<notin> set scheme \<and>
      takeWhile (\<lambda>c. c \<noteq> CHR '' '') rest \<noteq> []"
  then have "token_of (authorization req) = Some (takeWhile (\<lambda>c. c \<noteq> CHR '' '') rest)"
    by (simp add: second_piece)
  with a show "authenticateToken v req res =
          (case v (takeWhile (\<lambda>c. c \<noteq> CHR '' '') rest) of
             Inr decoded \<Rightarrow> Next (req\<lparr>user := Some decoded\<rparr>)
           | Inl error \<Rightarrow>
               Responded (send_json (Some (error_body ''Invalid token'')) (status 400 res)))"
    by (simp add: guard_with_token)
next
  assume "authorization req = Some (scheme @ CHR '' '' # rest) \<and> CHR '' '' \<notin> set scheme \<and>
      takeWhile (\<lambda>c. c \<noteq> CHR '' '') rest = []"
  then have none: "token_of (authorization req) = Some []"
    by (simp add: second_piece)
  then show "authenticateToken v req res =
          Threw (TypeError ''res.status(...).jso is not a function'') (res\<lparr>statusCode := 401\<rparr>)"
    by (simp add: guard_without_token status_def)
  from none show "authenticateToken v req res
      = authenticateToken v' (req\<lparr>authorization := None\<rparr>) res"
    by (simp add: guard_without_token no_header)
next
  assume "authorization req = None \<or> (\<exists>h. authorization req = Some h \<and> CHR '' '' \<notin> set h)"
  then have none: "token_of (authorization req) = None \<or> token_of (authorization req) = Some []"
  proof
    assume "authorization req = None"
    then show ?thesis by (simp add: token_of_def)
  next
    assume "\<exists>h. authorization req = Some h \<and> CHR '' '' \<notin> set h"
    then obtain h where "authorization req = Some h" and "CHR '' '' \<notin> set h" by blast
    then show ?thesis using no_second_piece [of h] by simp
  qed
  then show "authenticateToken v req res =
          Threw (TypeError ''res.status(...).jso is not a function'') (res\<lparr>statusCode := 401\<rparr>)"
    by (simp add: guard_without_token status_def)
  from none show "authenticateToken v req res
      = authenticateToken v' (req\<lparr>authorization := None\<rparr>) res"
    by (simp add: guard_without_token no_header)
qed

theorem guard_takes_second_piece_witness:
  "authenticateToken (Inr :: string \<Rightarrow> unit + string) (request_with_header ''Basic abc'')
       fresh_response
     = Next ((request_with_header ''Basic abc'')\<lparr>user := Some ''abc''\<rparr>)
   \<and> authenticateToken (Inr :: string \<Rightarrow> unit + string) (request_with_header ''Bearer  abc'')
       fresh_response
     = Threw (TypeError ''res.status(...).jso is not a function'')
         \<lparr>statusCode = 401, sent = None\<rparr>
   \<and> authenticateToken (Inr :: string \<Rightarrow> unit + string) (request_with_header ''Bearer'')
       fresh_response
     = Threw (TypeError ''res.status(...).jso is not a function'')
         \<lparr>statusCode = 401, sent = None\<rparr>"
  using guard_takes_second_piece [where req = "request_with_header ''Basic abc''"
      and scheme = "''Basic''" and rest = "''abc''"
      and v = "Inr :: string \<Rightarrow> unit + string" and v' = "Inl :: string \<Rightarrow> string + string"
      and res = fresh_response]
    guard_takes_second_piece [where req = "request_with_header ''Bearer  abc''"
      and scheme = "''Bearer''" and rest = "'' abc''"
      and v = "Inr :: string \<Rightarrow> unit + string" and v' = "Inl :: string \<Rightarrow> string + string"
      and res = fresh_response]
    guard_takes_second_piece [where req = "request_with_header ''Bearer''"
      and scheme = "''x''" and rest = "[]"
      and v = "Inr :: string \<Rightarrow> unit + string" and v' = "Inl :: string \<Rightarrow> string + string"
      and res = fresh_response]
  by (simp add: request_with_header_def fresh_response_def)

text \<open>
  C5. A request carries a token when the second piece of its header is not empty.
  When verification of the token fails, the guard responds 400 with the error
  \<^verbatim>\<open>Invalid token\<close>; when it succeeds, the guard sets \<^verbatim>\<open>req.user\<close> to the claims
  returned and calls \<^verbatim>\<open>next()\<close>, so that a guarded route runs its handler on that
  request.
\<close>

theorem guard_verification_outcome:
  assumes "token_of (authorization req) = Some token" and "token \<noteq> []"
  shows "(\<forall>error. v token = Inl error \<longrightarrow>
            authenticateToken v req res =
              Responded (res\<lparr>statusCode := 400,
                             sent := Some (JObj [(''error'', JStr ''Invalid token'')])\<rparr>))
       \<and> (\<forall>decoded. v token = Inr decoded \<longrightarrow>
            authenticateToken v req res = Next (req\<lparr>user := Some decoded\<rparr>)
            \<and> guarded v handler req res w = handler (req\<lparr>user := Some decoded\<rparr>) res w)"
  using assms
  by (simp add: guard_with_token guarded_def send_json_def status_def error_body_def)

theorem guard_verification_outcome_witness:
  "authenticateToken (Inl :: string \<Rightarrow> string + string) (request_with_header ''Bearer abc'')
       fresh_response
     = Responded \<lparr>statusCode = 400, sent = Some (JObj [(''error'', JStr ''Invalid token'')])\<rparr>
   \<and> authenticateToken (Inr :: string \<Rightarrow> unit + string) (request_with_header ''Bearer abc'')
       fresh_response
     = Next ((request_with_header ''Bearer abc'')\<lparr>user := Some ''abc''\<rparr>)"
  using guard_verification_outcome [where req = "request_with_header ''Bearer abc''"
      and token = "''abc''" and v = "Inl :: string \<Rightarrow> string + string"
      and res = fresh_response and handler = "\<lambda>req res w. (Sent res, w)" and w = "()"]
    guard_verification_outcome [where req = "request_with_header ''Bearer abc''"
      and token = "''abc''" and v = "Inr :: string \<Rightarrow> unit + string"
      and res = fresh_response and handler = "\<lambda>req res w. (Sent res, w)" and w = "()"]
  by (simp add: request_with_header_def token_of_def elem_at_def fresh_response_def)

section \<open>Properties of the handlers\<close>

lemmas statement_defs = select_users_by_email_def insert_user_def select_user_by_id_def
  insert_food_def select_food_name_def insert_log_def select_total_summary_def
  select_meal_summary_def

lemmas handler_splits = list.splits option.splits sum.splits prod.splits if_splits

lemmas response_defs = caught_def send_json_def status_def error_body_def

text \<open>
  A guarded route either runs its handler, on a request with the same body, or leaves
  the database as it was.
\<close>

lemma guarded_effect:
  assumes "\<And>req'. body req' = body req \<Longrightarrow> P (handler req' res w)" and "\<And>r. P (r, w)"
  shows "P (guarded v handler req res w)"
  using assms
  by (auto simp: guarded_def authenticateToken_def split: guard_result.splits handler_splits)

subsection \<open>What each handler does to the tables\<close>

lemma register_tables:
  "foods (snd (register e req res w)) = foods w \<and>
   daily_food_logs (snd (register e req res w)) = daily_food_logs w"
  by (auto simp: register_def pool_query_def statement_defs Let_def split: handler_splits)

lemma login_tables:
  "users (snd (login e req res w)) = users w \<and>
   foods (snd (login e req res w)) = foods w \<and>
   daily_food_logs (snd (login e req res w)) = daily_food_logs w"
  by (auto simp: login_def pool_query_def statement_defs Let_def split: handler_splits)

lemma profile_tables:
  "users (snd (profile e req res w)) = users w \<and>
   foods (snd (profile e req res w)) = foods w \<and>
   daily_food_logs (snd (profile e req res w)) = daily_food_logs w"
  by (auto simp: profile_def pool_query_def statement_defs Let_def split: handler_splits)

lemma search_tables: "snd (search e req res w) = w"
  by (auto simp: search_def Let_def split: handler_splits)

lemma daily_summary_tables:
  "users (snd (daily_summary e req res w)) = users w \<and>
   foods (snd (daily_summary e req res w)) = foods w \<and>
   daily_food_logs (snd (daily_summary e req res w)) = daily_food_logs w"
  by (auto simp: daily_summary_def pool_query_def statement_defs Let_def split: handler_splits)

lemma add_food_tables:
  "users (snd (add_food e req res w)) = users w \<and>
   daily_food_logs (snd (add_food e req res w)) = daily_food_logs w \<and>
   (\<exists>created. foods (snd (add_food e req res w)) = foods w @ created \<and>
      (\<forall>row \<in> set created. truthy (Some (f_food_name row)) \<and> truthy (Some (f_serving_size row))
          \<and> truthy (Some (f_calories row))))"
  by (auto simp: add_food_def pool_query_def statement_defs Let_def sql_param_def
      split: handler_splits)

lemma log_food_tables:
  "users (snd (log_food e req res w)) = users w \<and>
   foods (snd (log_food e req res w)) = foods w \<and>
   (\<exists>created. daily_food_logs (snd (log_food e req res w)) = daily_food_logs w @ created \<and>
     (\<forall>row \<in> set created. truthy (Some (l_food_id row)) \<and> truthy (Some (l_quantity row)) \<and>
         (\<exists>s. body req ''meal_type'' = Some (JStr s) \<and>
              l_meal_type row =
                (if toLowerCase e s \<in> set validMealTypes then toLowerCase e s else ''snack''))))"
  by (auto simp: log_food_def pool_query_def statement_defs Let_def sql_param_def
      split: handler_splits elim!: call_toLowerCase.elims)

text \<open>Over all routes: the rows a request adds to the foods and to the logs.\<close>

lemma router_foods:
  "\<exists>created. foods (snd (router jv e r req res w)) = foods w @ created \<and>
     (\<forall>row \<in> set created. truthy (Some (f_food_name row)) \<and> truthy (Some (f_serving_size row))
         \<and> truthy (Some (f_calories row)))"
proof (cases r)
  case POST_add_food
  show ?thesis
    unfolding router_def POST_add_food route.case
    by (rule guarded_effect) (simp_all add: add_food_tables)
next
  case POST_log_food
  show ?thesis
    unfolding router_def POST_log_food route.case
    by (rule guarded_effect) (simp_all add: log_food_tables)
next
  case GET_profile
  show ?thesis
    unfolding router_def GET_profile route.case
    by (rule guarded_effect) (simp_all add: profile_tables)
next
  case GET_daily_summary
  show ?thesis
    unfolding router_def GET_daily_summary route.case
    by (rule guarded_effect) (simp_all add: daily_summary_tables)
qed (simp_all add: router_def register_tables login_tables search_tables)

lemma router_logs:
  "\<exists>created. daily_food_logs (snd (router jv e r req res w)) = daily_food_logs w @ created \<and>
     (\<forall>row \<in> set created. truthy (Some (l_food_id row)) \<and> truthy (Some (l_quantity row)) \<and>
         (\<exists>s. body req ''meal_type'' = Some (JStr s) \<and>
              l_meal_type row =
                (if toLowerCase e s \<in> set validMealTypes then toLowerCase e s else ''snack'')))"
proof (cases r)
  case POST_add_food
  show ?thesis
    unfolding router_def POST_add_food route.case
    by (rule guarded_effect) (simp_all add: add_food_tables)
next
  case POST_log_food
  show ?thesis
    unfolding router_def POST_log_food route.case
  proof (rule guarded_effect)
    fix req' :: "claims request"
    assume "body req' = body req"
    then show "\<exists>created. daily_food_logs (snd (log_food e req' res w)) = daily_food_logs w @ created \<and>
       (\<forall>row \<in> set created. truthy (Some (l_food_id row)) \<and> truthy (Some (l_quantity row)) \<and>
         (\<exists>s. body req ''meal_type'' = Some (JStr s) \<and>
              l_meal_type row =
                (if toLowerCase e s \<in> set validMealTypes then toLowerCase e s else ''snack'')))"
      using log_food_tables [of e req' res w] by simp
  qed simp
next
  case GET_profile
  show ?thesis
    unfolding router_def GET_profile route.case
    by (rule guarded_effect) (simp_all add: profile_tables)
next
  case GET_daily_summary
  show ?thesis
    unfolding router_def GET_daily_summary route.case
    by (rule guarded_effect) (simp_all add: daily_summary_tables)
qed (simp_all add: router_def register_tables login_tables search_tables)

subsection \<open>Registration with an email that is taken\<close>

text \<open>
  C6. When the email of a registration request is that of a stored user, no table
  changes, whatever the database does to the lookup; and when the lookup runs (the
  query does not reject), the response is 400 with the error \<^verbatim>\<open>User already exists\<close>.
\<close>

theorem register_existing_email:
  assumes "body req ''email'' = Some email" and "email \<noteq> JNull"
    and "\<exists>u \<in> set (users w). u_email u = email"
  shows "users (snd (register e req res w)) = users w
       \<and> foods (snd (register e req res w)) = foods w
       \<and> daily_food_logs (snd (register e req res w)) = daily_food_logs w
       \<and> ((\<forall>m rest. faults w \<noteq> Some m # rest) \<longrightarrow>
            fst (register e req res w) =
              Sent (res\<lparr>statusCode := 400,
                        sent := Some (JObj [(''error'', JStr ''User already exists'')])\<rparr>))"
proof -
  from assms have found: "filter (\<lambda>u. sql_eq (u_email u) (sql_param (body req ''email''))) (users w) \<noteq> []"
    by (auto simp: filter_empty_conv sql_eq_def sql_param_def)
  then have "users (snd (register e req res w)) = users w"
    by (auto simp: register_def pool_query_def statement_defs Let_def split: handler_splits)
  moreover from found have "(\<forall>m rest. faults w \<noteq> Some m # rest) \<longrightarrow>
      fst (register e req res w) =
        Sent (res\<lparr>statusCode := 400,
                  sent := Some (JObj [(''error'', JStr ''User already exists'')])\<rparr>)"
    by (auto simp: register_def pool_query_def statement_defs Let_def response_defs
        split: handler_splits)
  ultimately show ?thesis
    by (simp add: register_tables)
qed

theorem register_existing_email_witness:
  "register sample_env
     (request_with_body [(''name'', JStr ''Bob''), (''email'', JStr ''a@b.com''),
                         (''password'', JStr ''pw'')])
     fresh_response sample_world
   = (Sent \<lparr>statusCode = 400, sent = Some (JObj [(''error'', JStr ''User already exists'')])\<rparr>,
      sample_world)"
proof -
  let ?req = "request_with_body [(''name'', JStr ''Bob''), (''email'', JStr ''a@b.com''),
                                 (''password'', JStr ''pw'')]"
  have email: "body ?req ''email'' = Some (JStr ''a@b.com'')"
    by (simp add: request_with_body_def)
  have stored: "\<exists>u \<in> set (users sample_world). u_email u = JStr ''a@b.com''"
    by (simp add: sample_world_def)
  have runs: "\<forall>m rest. faults sample_world \<noteq> Some m # rest"
    by (simp add: sample_world_def)
  have "fst (register sample_env ?req fresh_response sample_world)
      = Sent \<lparr>statusCode = 400, sent = Some (JObj [(''error'', JStr ''User already exists'')])\<rparr>"
    using register_existing_email [OF email _ stored, of sample_env fresh_response] runs
    by (simp add: fresh_response_def)
  moreover have "snd (register sample_env ?req fresh_response sample_world) = sample_world"
    by (simp add: register_def pool_query_def statement_defs Let_def sample_world_def
        request_with_body_def sql_eq_def sql_param_def)
  ultimately show ?thesis
    by (simp add: prod_eq_iff)
qed

subsection \<open>The meal type of a log record\<close>



subsection \<open>Required fields that are zero\<close>

text \<open>
  C10, as stated, fails in its last part: the string \<^verbatim>\<open>"0"\<close> is truthy, so add-food
  with \<^verbatim>\<open>calories: "0"\<close> passes the test, responds 201 and stores a food whose
  calories the numeric column reads as 0.
\<close>

theorem string_zero_is_stored:
  "add_food sample_env
     (request_with_body [(''food_name'', JStr ''water''), (''serving_size'', JNum 1),
                         (''calories'', JStr ''0'')])
     fresh_response sample_world
   = (Sent \<lparr>statusCode = 201,
            sent = Some (JObj [(''id'', JNum 3), (''food_name'', JStr ''water''),
                               (''serving_size'', JNum 1), (''calories'', JStr ''0''),
                               (''protein'', JNum 0), (''carbs'', JNum 0), (''fat'', JNum 0),
                               (''is_custom'', JBool True)])\<rparr>,
      sample_world\<lparr>foods := foods sample_world @
          [\<lparr>f_id = 3, f_food_name = JStr ''water'', f_serving_size = JNum 1,
            f_calories = JStr ''0'', f_protein = JNum 0, f_carbs = JNum 0, f_fat = JNum 0,
            f_is_custom = True\<rparr>],
        serial := 4\<rparr>)
   \<and> numeric_of (JStr ''0'') = Some 0"
  by (simp add: add_food_def pool_query_def statement_defs Let_def sample_world_def
      request_with_body_def sql_param_def or_zero_def food_json_def elem_at_def
      response_defs fresh_response_def digit_def)

text \<open>
  C10, amended. A required field is tested by truthiness, which the number 0 fails as
  a missing field does: add-food with \<^verbatim>\<open>serving_size\<close> or \<^verbatim>\<open>calories\<close> missing
  or the number 0, and log-food with \<^verbatim>\<open>quantity\<close> missing or the number 0,
  respond 400 and leave the database as it was. So whatever the route and the
  request, the calories and the serving size of a food the request creates, and the
  quantity of a log record it creates, are truthy values: none is the number 0.
\<close>

theorem zero_is_missing:
  "((body req ''serving_size'' = None \<or> body req ''serving_size'' = Some (JNum 0) \<or>
     body req ''calories'' = None \<or> body req ''calories'' = Some (JNum 0)) \<longrightarrow>
      add_food e req res w =
        (Sent (res\<lparr>statusCode := 400,
                  sent := Some (JObj [(''error'',
                    JStr ''Food name, serving size, and calories are required'')])\<rparr>), w))
   \<and> ((body req ''quantity'' = None \<or> body req ''quantity'' = Some (JNum 0)) \<longrightarrow>
      log_food e req res w =
        (Sent (res\<lparr>statusCode := 400,
                  sent := Some (JObj [(''error'',
                    JStr ''Food ID, meal type, and quantity are required'')])\<rparr>), w))
   \<and> (\<exists>created. foods (snd (router jwt_verify e r req res w)) = foods w @ created \<and>
         (\<forall>row \<in> set created.
            truthy (Some (f_calories row)) \<and> truthy (Some (f_serving_size row)) \<and>
            f_calories row \<noteq> JNum 0 \<and> f_serving_size row \<noteq> JNum 0))
   \<and> (\<exists>created.
         daily_food_logs (snd (router jwt_verify e r req res w)) = daily_food_logs w @ created \<and>
         (\<forall>row \<in> set created. truthy (Some (l_quantity row)) \<and> l_quantity row \<noteq> JNum 0))"
proof (intro conjI impI)
  assume "body req ''serving_size'' = None \<or> body req ''serving_size'' = Some (JNum 0) \<or>
     body req ''calories'' = None \<or> body req ''calories'' = Some (JNum 0)"
  then have "\<not> truthy (body req ''serving_size'') \<or> \<not> truthy (body req ''calories'')"
    by auto
  then show "add_food e req res w =
        (Sent (res\<lparr>statusCode := 400,
                  sent := Some (JObj [(''error'',
                    JStr ''Food name, serving size, and calories are required'')])\<rparr>), w)"
    by (auto simp: add_food_def response_defs)
next
  assume "body req ''quantity'' = None \<or> body req ''quantity'' = Some (JNum 0)"
  then have "\<not> truthy (body req ''quantity'')"
    by auto
  then show "log_food e req res w =
        (Sent (res\<lparr>statusCode := 400,
                  sent := Some (JObj [(''error'',
                    JStr ''Food ID, meal type, and quantity are required'')])\<rparr>), w)"
    by (auto simp: log_food_def response_defs)
next
  obtain created where c: "foods (snd (router jwt_verify e r req res w)) = foods w @ created"
    "\<forall>row \<in> set created. truthy (Some (f_serving_size row)) \<and> truthy (Some (f_calories row))"
    using router_foods [of jwt_verify e r req res w] by blast
  from c(2) have "\<forall>row \<in> set created.
            truthy (Some (f_calories row)) \<and> truthy (Some (f_serving_size row)) \<and>
            f_calories row \<noteq> JNum 0 \<and> f_serving_size row \<noteq> JNum 0"
    by auto
  with c(1) show "\<exists>created. foods (snd (router jwt_verify e r req res w)) = foods w @ created \<and>
         (\<forall>row \<in> set created.
            truthy (Some (f_calories row)) \<and> truthy (Some (f_serving_size row)) \<and>
            f_calories row \<noteq> JNum 0 \<and> f_serving_size row \<noteq> JNum 0)"
    by blast
next
  obtain created where c:
    "daily_food_logs (snd (router jwt_verify e r req res w)) = daily_food_logs w @ created"
    "\<forall>row \<in> set created. truthy (Some (l_quantity row))"
    using router_logs [of jwt_verify e r req res w] by blast
  from c(2) have "\<forall>row \<in> set created. truthy (Some (l_quantity row)) \<and> l_quantity row \<noteq> JNum 0"
    by auto
  with c(1) show "\<exists>created.
         daily_food_logs (snd (router jwt_verify e r req res w)) = daily_food_logs w @ created \<and>
         (\<forall>row \<in> set created. truthy (Some (l_quantity row)) \<and> l_quantity row \<noteq> JNum 0)"
    by blast
qed

theorem zero_is_missing_witness:
  "add_food sample_env
     (request_with_body [(''food_name'', JStr ''water''), (''serving_size'', JNum 1),
                         (''calories'', JNum 0)])
     fresh_response sample_world
   = (Sent \<lparr>statusCode = 400,
            sent = Some (JObj [(''error'',
              JStr ''Food name, serving size, and calories are required'')])\<rparr>, sample_world)
   \<and> log_food sample_env
     (request_with_body [(''food_id'', JNum 2), (''meal_type'', JStr ''lunch''),
                         (''quantity'', JNum 0)])
     fresh_response sample_world
   = (Sent \<lparr>statusCode = 400,
            sent = Some (JObj [(''error'',
              JStr ''Food ID, meal type, and quantity are required'')])\<rparr>, sample_world)"
  using zero_is_missing [of
      "request_with_body [(''food_name'', JStr ''water''), (''serving_size'', JNum 1),
                          (''calories'', JNum 0)]"
      sample_env fresh_response sample_world accept_all POST_add_food]
    zero_is_missing [of
      "request_with_body [(''food_id'', JNum 2), (''meal_type'', JStr ''lunch''),
                          (''quantity'', JNum 0)]"
      sample_env fresh_response sample_world accept_all POST_log_food]
  by (simp add: request_with_body_def fresh_response_def)

subsection \<open>Database and upstream failures\<close>

lemma register_catches:
  assumes "faults w = replicate k None @ Some m # rest"
  shows "fault_caught m rest res (register e req res w)"
  using assms
  by (cases k; cases "k - 1")
    (auto simp: fault_caught_def register_def pool_query_def statement_defs Let_def
       response_defs split: handler_splits)

lemma login_catches:
  assumes "faults w = replicate k None @ Some m # rest"
  shows "fault_caught m rest res (login e req res w)"
  using assms
  by (cases k)
    (auto simp: fault_caught_def login_def pool_query_def statement_defs Let_def
       response_defs split: handler_splits)

lemma profile_catches:
  assumes "faults w = replicate k None @ Some m # rest"
  shows "fault_caught m rest res (profile e req res w)"
  using assms
  by (cases k)
    (auto simp: fault_caught_def profile_def pool_query_def statement_defs Let_def
       response_defs split: handler_splits)

lemma search_catches:
  assumes "faults w = replicate k None @ Some m # rest"
  shows "fault_caught m rest res (search e req res w)"
  using assms by (simp add: fault_caught_def search_tables)

lemma add_food_catches:
  assumes "faults w = replicate k None @ Some m # rest"
  shows "fault_caught m rest res (add_food e req res w)"
  using assms
  by (cases k)
    (auto simp: fault_caught_def add_food_def pool_query_def statement_defs Let_def
       response_defs split: handler_splits)

lemma log_food_catches:
  assumes "faults w = replicate k None @ Some m # rest"
  shows "fault_caught m rest res (log_food e req res w)"
  using assms
  by (cases k; cases "k - 1")
    (auto simp: fault_caught_def log_food_def pool_query_def statement_defs Let_def
       response_defs split: handler_splits)

lemma daily_summary_catches:
  assumes "faults w = replicate k None @ Some m # rest"
  shows "fault_caught m rest res (daily_summary e req res w)"
  using assms
  by (cases k; cases "k - 1")
    (auto simp: fault_caught_def daily_summary_def pool_query_def statement_defs Let_def
       response_defs split: handler_splits)

text \<open>
  When a database query of a handler rejects with message \<open>m\<close> (the script's first
  fault, after \<open>k\<close> queries that run), each of the seven handlers that reaches that
  query sends status 500 with \<open>m\<close> as the body's \<^verbatim>\<open>error\<close> and issues no further
  query: the failed query is not tried again. When the upstream call of the search
  handler fails, the handler sends status 500 with the message of that error.
\<close>

lemma failures_are_caught:
  "(faults w = replicate k None @ Some m # rest \<longrightarrow>
      fault_caught m rest res (register e req res w) \<and>
      fault_caught m rest res (login e req res w) \<and>
      fault_caught m rest res (profile e req res w) \<and>
      fault_caught m rest res (search e req res w) \<and>
      fault_caught m rest res (add_food e req res w) \<and>
      fault_caught m rest res (log_food e req res w) \<and>
      fault_caught m rest res (daily_summary e req res w))
   \<and> (truthy (query req ''query'') \<and>
      axios_get e ''https://api.spoonacular.com/food/products/search''
        [(''apiKey'', map_option JStr (SPOONACULAR_API_KEY e)), (''query'', query req ''query''),
         (''number'', Some (JNum 100))] = Inl error \<longrightarrow>
      search e req res w =
        (Sent (res\<lparr>statusCode := 500, sent := Some (JObj [(''error'', JStr (message error))])\<rparr>),
         w))"
proof (intro conjI impI)
  assume "truthy (query req ''query'') \<and>
      axios_get e ''https://api.spoonacular.com/food/products/search''
        [(''apiKey'', map_option JStr (SPOONACULAR_API_KEY e)), (''query'', query req ''query''),
         (''number'', Some (JNum 100))] = Inl error"
  then show "search e req res w =
        (Sent (res\<lparr>statusCode := 500, sent := Some (JObj [(''error'', JStr (message error))])\<rparr>),
         w)"
    by (simp add: search_def Let_def response_defs)
qed (simp_all add: register_catches login_catches profile_catches search_catches
    add_food_catches log_food_catches daily_summary_catches)

lemma failures_are_caught_example:
  "register sample_env
     (request_with_body [(''name'', JStr ''Bob''), (''email'', JStr ''bob@b.com''),
                         (''password'', JStr ''pw'')])
     fresh_response (sample_world\<lparr>faults := [None, Some ''connection terminated'']\<rparr>)
   = (Sent \<lparr>statusCode = 500, sent = Some (JObj [(''error'', JStr ''connection terminated'')])\<rparr>,
      sample_world)
   \<and> search sample_env
     ((request_with_body [])\<lparr>query := map_of [(''query'', JStr ''apple'')]\<rparr>)
     fresh_response sample_world
   = (Sent \<lparr>statusCode = 500, sent = Some (JObj [(''error'', JStr ''Network Error'')])\<rparr>,
      sample_world)"
proof -
  let ?req = "request_with_body [(''name'', JStr ''Bob''), (''email'', JStr ''bob@b.com''),
                                 (''password'', JStr ''pw'')]"
  let ?w = "sample_world\<lparr>faults := [None, Some ''connection terminated'']\<rparr>"
  let ?q = "(request_with_body [])\<lparr>query := map_of [(''query'', JStr ''apple'')]\<rparr>"
  have script: "faults ?w = replicate 1 None @ Some ''connection terminated'' # []"
    by simp
  have reached: "\<not> length ([] :: string option list)
      < length (faults (snd (register sample_env ?req fresh_response ?w)))"
    by (simp add: register_def pool_query_def statement_defs Let_def sample_world_def
        sample_env_def request_with_body_def sql_eq_def sql_param_def)
  have tables: "snd (register sample_env ?req fresh_response ?w) = sample_world"
    by (simp add: register_def pool_query_def statement_defs Let_def sample_world_def
        sample_env_def request_with_body_def sql_eq_def sql_param_def)
  have upstream: "truthy (query ?q ''query'') \<and>
      axios_get sample_env ''https://api.spoonacular.com/food/products/search''
        [(''apiKey'', map_option JStr (SPOONACULAR_API_KEY sample_env)),
         (''query'', query ?q ''query''), (''number'', Some (JNum 100))]
        = Inl (Error ''Network Error'')"
    by (simp add: sample_env_def)
  from failures_are_caught [where w = ?w and k = 1 and m = "''connection terminated''"
      and rest = "[]" and res = fresh_response and e = sample_env and req = ?req
      and error = "Error ''Network Error''"] script reached
  have "fst (register sample_env ?req fresh_response ?w)
      = Sent \<lparr>statusCode = 500, sent = Some (JObj [(''error'', JStr ''connection terminated'')])\<rparr>"
    by (simp add: fault_caught_def fresh_response_def)
  moreover from failures_are_caught [where w = sample_world and k = 0 and m = "''none''"
      and rest = "[]" and res = fresh_response and e = sample_env and req = ?q
      and error = "Error ''Network Error''"] upstream
  have "search sample_env ?q fresh_response sample_world
      = (Sent \<lparr>statusCode = 500, sent = Some (JObj [(''error'', JStr ''Network Error'')])\<rparr>,
         sample_world)"
    by (simp add: fresh_response_def)
  ultimately show ?thesis
    using tables by (simp add: prod_eq_iff)
qed

text \<open>
  C9 fails for the log-food handler. \<^verbatim>\<open>meal_type.toLowerCase()\<close> stands before the
  handler's \<^verbatim>\<open>try\<close>: for a request whose \<^verbatim>\<open>food_id\<close> and \<^verbatim>\<open>quantity\<close> are
  truthy and whose \<^verbatim>\<open>meal_type\<close> is truthy and no string (a number, \<^verbatim>\<open>true\<close>, an
  array, an object) the call throws a TypeError that no \<^verbatim>\<open>catch\<close> of the handler
  sees: the handler sends no response and the database is as it was.
\<close>

theorem log_food_type_error_escapes:
  assumes "truthy (body req ''food_id'')" and "truthy (body req ''quantity'')"
    and "body req ''meal_type'' = Some v" and "truthy (Some v)" and "\<forall>s. v \<noteq> JStr s"
  shows "log_food e req res w =
           (Uncaught (TypeError ''meal_type.toLowerCase is not a function''), w)"
  using assms by (cases v) (simp_all add: log_food_def)

theorem log_food_type_error_escapes_witness:
  "log_food sample_env
     (request_with_body [(''food_id'', JNum 2), (''meal_type'', JNum 5), (''quantity'', JNum 1)])
     fresh_response sample_world
   = (Uncaught (TypeError ''meal_type.toLowerCase is not a function''), sample_world)"
proof -
  let ?req = "request_with_body
      [(''food_id'', JNum 2), (''meal_type'', JNum 5), (''quantity'', JNum 1)]"
  have food_id: "truthy (body ?req ''food_id'')"
    by (simp add: request_with_body_def)
  have quantity: "truthy (body ?req ''quantity'')"
    by (simp add: request_with_body_def)
  have meal_type: "body ?req ''meal_type'' = Some (JNum 5)"
    by (simp add: request_with_body_def)
  have number: "truthy (Some (JNum 5))" "\<forall>s. JNum 5 \<noteq> JStr s"
    by simp_all
  from log_food_type_error_escapes [OF food_id quantity meal_type number]
  show ?thesis .
qed

section \<open>Properties of the token issuer and verifier\<close>

lemma one_hour: "timespan ''1h'' = Some 3600"
  by (simp add: timespan_def digit_def)

text \<open>
  C3. Verification of a token string succeeds exactly when the string is a token
  signed with the server's secret whose expiry is after the current time. A token
  signed with the secret and verified at or after its expiry yields Expired; a token
  signed with another secret yields SignatureInvalid. Nothing else is consulted: a
  guarded route whose request carries a token that verifies runs its handler whatever
  the database holds, also when it holds no user.
\<close>

theorem verify_checks_signature_and_expiry:
  "((\<exists>c. verify decode tok secret now = Inr c) \<longleftrightarrow>
      (\<exists>t. decode tok = Some t \<and> secret = Some (signed_with t) \<and> now < exp (payload t)))
   \<and> (\<forall>t. decode tok = Some t \<and> secret = Some (signed_with t) \<and> exp (payload t) \<le> now
         \<longrightarrow> verify decode tok secret now = Inl Expired)
   \<and> (\<forall>t. decode tok = Some t \<and> secret \<noteq> Some (signed_with t)
         \<longrightarrow> verify decode tok secret now = Inl SignatureInvalid)
   \<and> (\<forall>t. decode tok = Some t \<and> JWT_SECRET e = Some (signed_with t) \<and> clock w < exp (payload t)
           \<and> token_of (authorization req) = Some tok \<and> tok \<noteq> []
         \<longrightarrow> router (verify decode) e GET_profile req res w
               = profile e (req\<lparr>user := Some (payload t)\<rparr>) res w)"
proof (intro conjI allI impI)
  show "(\<exists>c. verify decode tok secret now = Inr c) \<longleftrightarrow>
      (\<exists>t. decode tok = Some t \<and> secret = Some (signed_with t) \<and> now < exp (payload t))"
    by (cases "decode tok") (auto simp: verify_def)
next
  fix t
  assume "decode tok = Some t \<and> secret = Some (signed_with t) \<and> exp (payload t) \<le> now"
  then show "verify decode tok secret now = Inl Expired"
    by (simp add: verify_def)
next
  fix t
  assume "decode tok = Some t \<and> secret \<noteq> Some (signed_with t)"
  then show "verify decode tok secret now = Inl SignatureInvalid"
    by (simp add: verify_def)
next
  fix t
  assume a: "decode tok = Some t \<and> JWT_SECRET e = Some (signed_with t) \<and> clock w < exp (payload t)
           \<and> token_of (authorization req) = Some tok \<and> tok \<noteq> []"
  then have "verify decode tok (JWT_SECRET e) (clock w) = Inr (payload t)"
    by (simp add: verify_def)
  with a show "router (verify decode) e GET_profile req res w
               = profile e (req\<lparr>user := Some (payload t)\<rparr>) res w"
    by (simp add: router_def guarded_def guard_with_token)
qed

theorem verify_checks_signature_and_expiry_witness:
  "verify sample_decode ''header.payload.signature'' (Some ''secret'') 1000
     = Inr \<lparr>userId = 1, iat = 1000, exp = 4600\<rparr>
   \<and> verify sample_decode ''header.payload.signature'' (Some ''secret'') 4600 = Inl Expired
   \<and> verify sample_decode ''header.payload.signature'' (Some ''other'') 1000 = Inl SignatureInvalid
   \<and> router (verify sample_decode) sample_env GET_profile
       (request_with ''Bearer header.payload.signature'' []) fresh_response
       (sample_world\<lparr>users := []\<rparr>)
     = (Sent fresh_response, sample_world\<lparr>users := []\<rparr>)"
proof -
  let ?tok = "''header.payload.signature''"
  let ?req = "request_with ''Bearer header.payload.signature'' []"
  let ?w = "sample_world\<lparr>users := []\<rparr>"
  have decoded: "sample_decode ?tok = Some sample_token"
    by (simp add: sample_decode_def)
  have carried: "token_of (authorization ?req) = Some ?tok \<and> ?tok \<noteq> []"
    by (simp add: request_with_def token_of_def elem_at_def)
  have handler: "profile sample_env (?req\<lparr>user := Some (payload sample_token)\<rparr>) fresh_response ?w
      = (Sent fresh_response, ?w)"
    by (simp add: profile_def pool_query_def statement_defs sample_world_def send_json_def
        fresh_response_def)
  note at_issue = verify_checks_signature_and_expiry [where decode = sample_decode
      and tok = ?tok and secret = "Some ''secret''" and now = 1000 and e = sample_env
      and w = ?w and req = ?req and res = fresh_response]
  note at_expiry = verify_checks_signature_and_expiry [where decode = sample_decode
      and tok = ?tok and secret = "Some ''secret''" and now = 4600 and e = sample_env
      and w = ?w and req = ?req and res = fresh_response]
  note other_secret = verify_checks_signature_and_expiry [where decode = sample_decode
      and tok = ?tok and secret = "Some ''other''" and now = 1000 and e = sample_env
      and w = ?w and req = ?req and res = fresh_response]
  have "\<exists>c. verify sample_decode ?tok (Some ''secret'') 1000 = Inr c"
    using at_issue decoded by (simp add: sample_token_def)
  then have "verify sample_decode ?tok (Some ''secret'') 1000 = Inr \<lparr>userId = 1, iat = 1000, exp = 4600\<rparr>"
    using decoded by (auto simp: verify_def sample_token_def split: if_splits)
  moreover have "verify sample_decode ?tok (Some ''secret'') 4600 = Inl Expired"
    using at_expiry decoded by (simp add: sample_token_def)
  moreover have "verify sample_decode ?tok (Some ''other'') 1000 = Inl SignatureInvalid"
    using other_secret decoded by (simp add: sample_token_def)
  moreover have "router (verify sample_decode) sample_env GET_profile ?req fresh_response ?w
      = (Sent fresh_response, ?w)"
    using at_issue decoded carried handler
    by (simp add: sample_token_def sample_env_def sample_world_def)
  ultimately show ?thesis by simp
qed

text \<open>
  C4. The token that the login handler signs for user \<open>U\<close> at the instant \<open>now\<close>
  carries \<open>U\<close>, the issuance time \<open>now\<close> and the expiry \<open>now + 3600\<close>, one hour
  later; verified at that instant with the same secret it yields these claims. The
  wire format must read back the token it wrote.
\<close>

theorem issued_token_verifies:
  assumes "jwt_sign e = issue encode" and "JWT_SECRET e = Some secret"
    and "decode (encode \<lparr>payload = \<lparr>userId = U, iat = now, exp = now + 3600\<rparr>,
                          signed_with = secret\<rparr>)
           = Some \<lparr>payload = \<lparr>userId = U, iat = now, exp = now + 3600\<rparr>, signed_with = secret\<rparr>"
  shows "login_token e U now
           = Inr (encode \<lparr>payload = \<lparr>userId = U, iat = now, exp = now + 3600\<rparr>,
                          signed_with = secret\<rparr>)
       \<and> verify decode
           (encode \<lparr>payload = \<lparr>userId = U, iat = now, exp = now + 3600\<rparr>, signed_with = secret\<rparr>)
           (JWT_SECRET e) now
           = Inr \<lparr>userId = U, iat = now, exp = now + 3600\<rparr>"
  using assms by (simp add: login_token_def issue_def one_hour verify_def)

theorem issued_token_verifies_witness:
  "login_token (sample_env\<lparr>jwt_sign := issue sample_encode\<rparr>) 1 1000
     = Inr ''header.payload.signature''
   \<and> verify sample_decode ''header.payload.signature'' (Some ''secret'') 1000
     = Inr \<lparr>userId = 1, iat = 1000, exp = 4600\<rparr>"
proof -
  let ?e = "sample_env\<lparr>jwt_sign := issue sample_encode\<rparr>"
  have lib: "jwt_sign ?e = issue sample_encode"
    by simp
  have secret: "JWT_SECRET ?e = Some ''secret''"
    by (simp add: sample_env_def)
  have reads_back: "sample_decode (sample_encode
        \<lparr>payload = \<lparr>userId = 1, iat = 1000, exp = 1000 + 3600\<rparr>, signed_with = ''secret''\<rparr>)
      = Some \<lparr>payload = \<lparr>userId = 1, iat = 1000, exp = 1000 + 3600\<rparr>, signed_with = ''secret''\<rparr>"
    by (simp add: sample_decode_def sample_encode_def sample_token_def)
  from issued_token_verifies [where e = ?e and encode = sample_encode and decode = sample_decode
      and secret = "''secret''" and U = 1 and now = 1000, OF lib secret reads_back]
  show ?thesis
    by (simp add: sample_encode_def sample_env_def)
qed


end
